theory Spec2Isabelle
  imports Main
begin

section \<open>Strings and the library functions the package calls\<close>

text \<open>
  A Go \<^verbatim>\<open>string\<close> is a sequence of bytes; it is modelled as \<^typ>\<open>string\<close>, a list of
  8-bit characters. A Go slice \<^verbatim>\<open>[]string\<close> is a \<^typ>\<open>string list\<close>: the package only
  ranges over its slices, takes their length and appends to them, so the nil slice and
  the empty slice are the same value \<open>[]\<close>.
\<close>

subsection \<open>\<^verbatim>\<open>strings.ToUpper\<close> and \<^verbatim>\<open>strings.ToLower\<close>\<close>

text \<open>
  On a string of ASCII bytes only, Go maps the bytes \<^verbatim>\<open>a..z\<close> to \<^verbatim>\<open>A..Z\<close> (and back) and
  leaves every other byte alone. On any other string it decodes UTF-8 and maps each rune
  through the Unicode tables; that part is not modelled but taken as a parameter, the
  fields \<open>ToUpperUnicode\<close> and \<open>ToLowerUnicode\<close> of the environment below.
\<close>

definition isASCII :: "string \<Rightarrow> bool" where
  "isASCII s = list_all (\<lambda>c. (of_char c :: nat) < 128) s"

definition upperASCII :: "char \<Rightarrow> char" where
  "upperASCII c =
     (if (97::nat) \<le> of_char c \<and> (of_char c :: nat) \<le> 122
      then char_of ((of_char c :: nat) - 32) else c)"

definition lowerASCII :: "char \<Rightarrow> char" where
  "lowerASCII c =
     (if (65::nat) \<le> of_char c \<and> (of_char c :: nat) \<le> 90
      then char_of ((of_char c :: nat) + 32) else c)"

text \<open>
  The environment: what the package calls and \<^verbatim>\<open>src/cors.go\<close> does not define.
  \<^item> \<open>ToUpperUnicode\<close>, \<open>ToLowerUnicode\<close>: the standard library's case mapping of a string
    that has a non-ASCII byte;
  \<^item> \<open>toHeader\<close>: the package's helper that canonicalizes a header name (called by
    \<^verbatim>\<open>New\<close>, defined in a file that is not part of the sources at hand);
  \<^item> \<open>parseHeaderList\<close>: the package's helper that splits the value of
    \<^verbatim>\<open>Access-Control-Request-Headers\<close> into tokens (called by \<^verbatim>\<open>handlePreflight\<close>,
    defined in the same missing file).
  Every theorem below holds for every environment.
\<close>

record env =
  ToUpperUnicode :: "string \<Rightarrow> string"
  ToLowerUnicode :: "string \<Rightarrow> string"
  toHeader :: "string \<Rightarrow> string"
  parseHeaderList :: "string \<Rightarrow> string list"

definition ToUpper :: "env \<Rightarrow> string \<Rightarrow> string" where
  "ToUpper E s = (if isASCII s then map upperASCII s else ToUpperUnicode E s)"

definition ToLower :: "env \<Rightarrow> string \<Rightarrow> string" where
  "ToLower E s = (if isASCII s then map lowerASCII s else ToLowerUnicode E s)"

subsection \<open>\<^verbatim>\<open>strings.Join\<close> and \<^verbatim>\<open>strconv.Itoa\<close>\<close>

fun Join :: "string list \<Rightarrow> string \<Rightarrow> string" where
  "Join [] sep = []"
| "Join [x] sep = x"
| "Join (x # y # ys) sep = x @ sep @ Join (y # ys) sep"

definition digit :: "nat \<Rightarrow> char" where
  "digit d = char_of (48 + d)"

fun utoa :: "nat \<Rightarrow> string" where
  "utoa n = (if n < 10 then [digit n] else utoa (n div 10) @ [digit (n mod 10)])"

declare utoa.simps [simp del]

text \<open>
  Go's \<^verbatim>\<open>int\<close> is a machine integer; \<open>MaxAge\<close> is only compared with 0 and printed, never
  computed with, so it is modelled as an \<^typ>\<open>int\<close> and \<open>Itoa\<close> is defined on all of them.
\<close>

definition Itoa :: "int \<Rightarrow> string" where
  "Itoa i = (if i < 0 then CHR ''-'' # utoa (nat (- i)) else utoa (nat i))"

text \<open>Reading a string of decimal digits back, to say what \<open>Itoa\<close> prints.\<close>

definition atou :: "string \<Rightarrow> nat" where
  "atou s = foldl (\<lambda>a c. 10 * a + (of_char c - 48)) 0 s"

section \<open>The data model\<close>

record Options =
  AllowedOrigins :: "string list"
  AllowedMethods :: "string list"
  AllowedHeaders :: "string list"
  ExposedHeaders :: "string list"
  AllowCredentials :: bool
  MaxAge :: int

record Cors =
  options :: Options

section \<open>The matchers\<close>

text \<open>The \<^verbatim>\<open>for ... range allowedOrigins\<close> loop of \<^verbatim>\<open>isOriginAllowed\<close>, with its switch.\<close>

fun isOriginAllowed_loop :: "string list \<Rightarrow> string \<Rightarrow> bool" where
  "isOriginAllowed_loop [] origin = False"
| "isOriginAllowed_loop (allowedOrigin # rest) origin =
     (if allowedOrigin = ''*'' then True
      else if allowedOrigin = origin then True
      else isOriginAllowed_loop rest origin)"

definition isOriginAllowed :: "env \<Rightarrow> Cors \<Rightarrow> string \<Rightarrow> bool" where
  "isOriginAllowed E cors origin =
     (let allowedOrigins = AllowedOrigins (options cors);
          origin = ToLower E origin
      in isOriginAllowed_loop allowedOrigins origin)"

text \<open>The \<^verbatim>\<open>for ... range allowedMethods\<close> loop of \<^verbatim>\<open>isMethodAllowed\<close>.\<close>

fun isMethodAllowed_loop :: "string list \<Rightarrow> string \<Rightarrow> bool" where
  "isMethodAllowed_loop [] method = False"
| "isMethodAllowed_loop (allowedMethod # rest) method =
     (if allowedMethod = method then True else isMethodAllowed_loop rest method)"

definition isMethodAllowed :: "env \<Rightarrow> Cors \<Rightarrow> string \<Rightarrow> bool" where
  "isMethodAllowed E cors method =
     (let allowedMethods = AllowedMethods (options cors)
      in if length allowedMethods = 0 then False
         else let method = ToUpper E method
              in if method = ''OPTIONS'' then True
                 else isMethodAllowed_loop allowedMethods method)"

text \<open>
  \<^verbatim>\<open>areHeadersAllowed\<close>: the inner loop sets \<^verbatim>\<open>found\<close> and breaks at the first equal entry;
  the outer loop returns false at the first header that was not found.
\<close>

fun found_loop :: "string \<Rightarrow> string list \<Rightarrow> bool" where
  "found_loop header [] = False"
| "found_loop header (allowedHeader # rest) =
     (if header = allowedHeader then True else found_loop header rest)"

fun areHeadersAllowed_loop :: "Cors \<Rightarrow> string list \<Rightarrow> bool" where
  "areHeadersAllowed_loop cors [] = True"
| "areHeadersAllowed_loop cors (header # rest) =
     (let found = found_loop header (AllowedHeaders (options cors))
      in if \<not> found then False else areHeadersAllowed_loop cors rest)"

definition areHeadersAllowed :: "Cors \<Rightarrow> string list \<Rightarrow> bool" where
  "areHeadersAllowed cors requestedHeaders =
     (if length requestedHeaders = 0 then True
      else areHeadersAllowed_loop cors requestedHeaders)"

section \<open>Requests, responses and handlers\<close>

text \<open>
  \<^verbatim>\<open>http.Header\<close> is a \<^verbatim>\<open>map[string][]string\<close>. \<^verbatim>\<open>Get\<close> returns the first value stored
  under the key, or the empty string when there is none; \<^verbatim>\<open>Set\<close> replaces whatever is
  stored under the key by the single value. Both canonicalize the key first; every key
  the package passes is a literal already in canonical form, so the key is used as it is.
\<close>

type_synonym http_Header = "string \<rightharpoonup> string list"

definition Header_Get :: "http_Header \<Rightarrow> string \<Rightarrow> string" where
  "Header_Get h key =
     (case h key of None \<Rightarrow> [] | Some vs \<Rightarrow> (case vs of [] \<Rightarrow> [] | v # _ \<Rightarrow> v))"

definition Header_Set :: "http_Header \<Rightarrow> string \<Rightarrow> string \<Rightarrow> http_Header" where
  "Header_Set h key v = h(key \<mapsto> [v])"

text \<open>What the package reads of an \<^verbatim>\<open>*http.Request\<close>: its method and its headers.\<close>

record Request =
  Method :: string
  Header :: http_Header

text \<open>
  What the package touches of an \<^verbatim>\<open>http.ResponseWriter\<close>: the header map that
  \<^verbatim>\<open>w.Header()\<close> returns. Everything else a wrapped handler may write (status, body) is
  the extension of the record. A handler takes the writer and the request and returns the
  writer as it has left it.
\<close>

record ResponseWriter =
  WriterHeader :: http_Header

type_synonym 'a http_Handler = "'a ResponseWriter_scheme \<Rightarrow> Request \<Rightarrow> 'a ResponseWriter_scheme"

section \<open>The response composers\<close>

definition handlePreflight :: "env \<Rightarrow> Cors \<Rightarrow> 'a http_Handler" where
  "handlePreflight E cors w r =
     (let opts = options cors;
          headers = WriterHeader w;
          origin = Header_Get (Header r) ''Origin''
      in if Method r \<noteq> ''OPTIONS'' \<or> origin = '''' \<or> \<not> isOriginAllowed E cors origin then w
         else
           let reqMethod = Header_Get (Header r) ''Access-Control-Request-Method''
           in if \<not> isMethodAllowed E cors reqMethod then w
              else
                let reqHeaders =
                      parseHeaderList E (Header_Get (Header r) ''Access-Control-Request-Headers'')
                in if \<not> areHeadersAllowed cors reqHeaders then w
                   else
                     let headers = Header_Set headers ''Access-Control-Allow-Origin'' origin;
                         headers = Header_Set headers ''Access-Control-Allow-Methods''
                                     (ToUpper E reqMethod);
                         headers = (if length reqHeaders > 0
                                    then Header_Set headers ''Access-Control-Allow-Headers''
                                           (Join reqHeaders '', '')
                                    else headers);
                         headers = (if AllowCredentials opts
                                    then Header_Set headers ''Access-Control-Allow-Credentials''
                                           ''true''
                                    else headers);
                         headers = (if MaxAge opts > 0
                                    then Header_Set headers ''Access-Control-Max-Age''
                                           (Itoa (MaxAge opts))
                                    else headers)
                     in w\<lparr>WriterHeader := headers\<rparr>)"

definition handleActualRequest :: "env \<Rightarrow> Cors \<Rightarrow> 'a http_Handler" where
  "handleActualRequest E cors w r =
     (let opts = options cors;
          headers = WriterHeader w;
          origin = Header_Get (Header r) ''Origin''
      in if Method r = ''OPTIONS'' \<or> origin = '''' \<or> \<not> isOriginAllowed E cors origin then w
         else if \<not> isMethodAllowed E cors (Method r) then w
         else
           let headers = Header_Set headers ''Access-Control-Allow-Origin'' origin;
               headers = (if length (ExposedHeaders opts) > 0
                          then Header_Set headers ''Access-Control-Expose-Headers''
                                 (Join (ExposedHeaders opts) '', '')
                          else headers);
               headers = (if AllowCredentials opts
                          then Header_Set headers ''Access-Control-Allow-Credentials'' ''true''
                          else headers)
           in w\<lparr>WriterHeader := headers\<rparr>)"

section \<open>The handler adapters\<close>

text \<open>\<^verbatim>\<open>Handler\<close> wraps the handler \<open>h\<close>.\<close>

definition Handler :: "env \<Rightarrow> Cors \<Rightarrow> 'a http_Handler \<Rightarrow> 'a http_Handler" where
  "Handler E cors h w r =
     (if Method r = ''OPTIONS'' then handlePreflight E cors w r
      else let w = handleActualRequest E cors w r in h w r)"

text \<open>The Martini adapter: no continuation.\<close>

definition HandlerFunc :: "env \<Rightarrow> Cors \<Rightarrow> 'a http_Handler" where
  "HandlerFunc E cors w r =
     (if Method r = ''OPTIONS'' then handlePreflight E cors w r
      else handleActualRequest E cors w r)"

text \<open>The Negroni adapter: the continuation is \<open>next\<close>.\<close>

definition ServeHTTP :: "env \<Rightarrow> Cors \<Rightarrow> 'a ResponseWriter_scheme \<Rightarrow> Request \<Rightarrow> 'a http_Handler
    \<Rightarrow> 'a ResponseWriter_scheme" where
  "ServeHTTP E cors w r nxt =
     (if Method r = ''OPTIONS'' then handlePreflight E cors w r
      else let w = handleActualRequest E cors w r in nxt w r)"

section \<open>Construction of the policy\<close>

text \<open>
  Modelled from the spec: \<^verbatim>\<open>convert\<close>, the helper \<^verbatim>\<open>New\<close> calls on every list, is defined
  in a file that is not part of the sources at hand. The specification says that
  construction lowercases every allowed origin, uppercases every allowed method and
  canonicalizes every header name, and that the lists stay ordered sequences: \<open>convert\<close>
  applies the converter to each entry, in order.
\<close>

definition convert :: "string list \<Rightarrow> (string \<Rightarrow> string) \<Rightarrow> string list" where
  "convert s c = map c s"

definition New :: "env \<Rightarrow> Options \<Rightarrow> Cors" where
  "New E opts =
     (let normOptions =
            \<lparr>AllowedOrigins = convert (AllowedOrigins opts) (ToLower E),
             AllowedMethods = convert (AllowedMethods opts) (ToUpper E),
             AllowedHeaders = convert (AllowedHeaders opts @ [''Origin'']) (toHeader E),
             ExposedHeaders = convert (ExposedHeaders opts) (toHeader E),
             AllowCredentials = AllowCredentials opts,
             MaxAge = MaxAge opts\<rparr>;
          normOptions = (if length (AllowedOrigins normOptions) = 0
                         then normOptions\<lparr>AllowedOrigins := [''*'']\<rparr> else normOptions);
          normOptions = (if length (AllowedMethods normOptions) = 0
                         then normOptions\<lparr>AllowedMethods := [''GET'', ''POST'']\<rparr>
                         else normOptions)
      in \<lparr>options = normOptions\<rparr>)"

text \<open>\<^verbatim>\<open>Options{}\<close>: every list nil, the flag false, the age 0.\<close>

definition Default :: "env \<Rightarrow> Cors" where
  "Default E =
     New E \<lparr>AllowedOrigins = [], AllowedMethods = [], AllowedHeaders = [],
            ExposedHeaders = [], AllowCredentials = False, MaxAge = 0\<rparr>"

section \<open>An environment to run the model in\<close>

text \<open>
  Modelled from the spec: \<^verbatim>\<open>toHeader\<close>, missing from the sources at hand. The
  specification calls it canonical capitalization, with the example
  \<^verbatim>\<open>content-type\<close> to \<^verbatim>\<open>Content-Type\<close>: the first letter and every letter after a hyphen
  in upper case, every other letter in lower case.
\<close>

fun capitalize :: "bool \<Rightarrow> string \<Rightarrow> string" where
  "capitalize up [] = []"
| "capitalize up (c # cs) =
     (if up then upperASCII c else lowerASCII c) # capitalize (c = CHR ''-'') cs"

definition toHeader_spec :: "string \<Rightarrow> string" where
  "toHeader_spec name = capitalize True name"

text \<open>
  Modelled from the spec: \<^verbatim>\<open>parseHeaderList\<close>, missing from the sources at hand. The
  specification's parsing rule: split on commas, trim the whitespace around each token,
  keep an empty token as an empty string. A request that sends no
  \<^verbatim>\<open>Access-Control-Request-Headers\<close> has an empty sequence of requested headers
  (the specification's Scenario A).
\<close>

fun splitCommas :: "string \<Rightarrow> string list" where
  "splitCommas [] = [[]]"
| "splitCommas (c # cs) =
     (if c = CHR '','' then [] # splitCommas cs
      else (case splitCommas cs of [] \<Rightarrow> [[c]] | t # ts \<Rightarrow> (c # t) # ts))"

definition isSpace :: "char \<Rightarrow> bool" where
  "isSpace c = (c = CHR '' '' \<or> c = CHR 0x09 \<or> c = CHR 0x0A \<or> c = CHR 0x0D)"

definition TrimSpace :: "string \<Rightarrow> string" where
  "TrimSpace s = rev (dropWhile isSpace (rev (dropWhile isSpace s)))"

definition parseHeaderList_spec :: "string \<Rightarrow> string list" where
  "parseHeaderList_spec headerList =
     (if headerList = [] then [] else map TrimSpace (splitCommas headerList))"

text \<open>
  The environment of the examples: the two helpers as the specification describes them.
  The examples are ASCII, so the Unicode case mappings are never reached; they are the
  identity here.
\<close>

definition env0 :: env where
  "env0 = \<lparr>ToUpperUnicode = (\<lambda>s. s), ToLowerUnicode = (\<lambda>s. s),
           toHeader = toHeader_spec, parseHeaderList = parseHeaderList_spec\<rparr>"

text \<open>
  A writer whose extension counts the calls of the wrapped handler, and the handler that
  counts: the examples observe with them whether the wrapped handler ran.
\<close>

record CountingWriter = ResponseWriter +
  calls :: nat

definition countingHandler :: "unit CountingWriter_ext http_Handler" where
  "countingHandler w r = w\<lparr>calls := Suc (calls w)\<rparr>"

section \<open>Example policies and requests\<close>

text \<open>The package comment's policy: one origin, the two simple methods.\<close>

definition optionsA :: Options where
  "optionsA = \<lparr>AllowedOrigins = [''foo.com''], AllowedMethods = [''GET'', ''POST''],
     AllowedHeaders = [], ExposedHeaders = [], AllowCredentials = False, MaxAge = 0\<rparr>"

text \<open>Every origin, credentials, a cache lifetime, two more headers, one exposed header.\<close>

definition optionsC :: Options where
  "optionsC = \<lparr>AllowedOrigins = [''*''], AllowedMethods = [],
     AllowedHeaders = [''x-custom'', ''content-type''], ExposedHeaders = [''x-total''],
     AllowCredentials = True, MaxAge = 600\<rparr>"

text \<open>A policy with no method at all, which \<^verbatim>\<open>New\<close> never builds.\<close>

definition lockdown :: Cors where
  "lockdown = \<lparr>options = \<lparr>AllowedOrigins = [''*''], AllowedMethods = [],
     AllowedHeaders = [''Origin''], ExposedHeaders = [], AllowCredentials = False,
     MaxAge = 0\<rparr>\<rparr>"

definition request :: "string \<Rightarrow> (string \<times> string) list \<Rightarrow> Request" where
  "request m hs = \<lparr>Method = m, Header = map_of (map (\<lambda>(k, v). (k, [v])) hs)\<rparr>"

definition preflightA :: Request where
  "preflightA = request ''OPTIONS''
     [(''Origin'', ''foo.com''), (''Access-Control-Request-Method'', ''POST'')]"

definition preflightB :: Request where
  "preflightB = request ''OPTIONS''
     [(''Origin'', ''bar.com''), (''Access-Control-Request-Method'', ''POST'')]"

definition preflightE :: Request where
  "preflightE = request ''OPTIONS''
     [(''Origin'', ''Anything.com''), (''Access-Control-Request-Method'', ''post''),
      (''Access-Control-Request-Headers'', ''X-Custom, Content-Type'')]"

definition getC :: Request where
  "getC = request ''GET'' [(''Origin'', ''Anything.com'')]"

definition deleteD :: Request where
  "deleteD = request ''DELETE'' [(''Origin'', ''foo.com'')]"


text \<open>A preflight whose \<^verbatim>\<open>Origin\<close> header is the wildcard itself.\<close>

definition preflightStar :: Request where
  "preflightStar = request ''OPTIONS''
     [(''Origin'', ''*''), (''Access-Control-Request-Method'', ''POST'')]"

text \<open>Preflights that announce a method outside the list, no method, and \<^verbatim>\<open>options\<close>.\<close>

definition preflightDelete :: Request where
  "preflightDelete = request ''OPTIONS''
     [(''Origin'', ''foo.com''), (''Access-Control-Request-Method'', ''DELETE'')]"

definition preflightBare :: Request where
  "preflightBare = request ''OPTIONS'' [(''Origin'', ''foo.com'')]"

definition preflightOptions :: Request where
  "preflightOptions = request ''OPTIONS''
     [(''Origin'', ''foo.com''), (''Access-Control-Request-Method'', ''options'')]"

definition getNoOrigin :: Request where
  "getNoOrigin = request ''GET'' []"

definition w0 :: CountingWriter where
  "w0 = \<lparr>WriterHeader = Map.empty, calls = 0\<rparr>"

section \<open>\<open>Itoa\<close> prints the decimal digits of its argument\<close>

lemma of_char_digit: "d < 10 \<Longrightarrow> (of_char (digit d) :: nat) = 48 + d"
  by (simp add: digit_def)

lemma atou_utoa: "atou (utoa n) = n"
proof (induction n rule: utoa.induct)
  case (1 n)
  show ?case
  proof (cases "n < 10")
    case True
    then show ?thesis
      by (simp add: utoa.simps [of n] atou_def of_char_digit)
  next
    case False
    with 1 have "atou (utoa (n div 10)) = n div 10"
      by simp
    with False show ?thesis
      by (simp add: utoa.simps [of n] atou_def of_char_digit)
  qed
qed

lemma digits_string: "map digit [0..<10] = ''0123456789''"
  by code_simp

lemma digit_in_digits: "k < 10 \<Longrightarrow> digit k \<in> set ''0123456789''"
proof -
  assume "k < 10"
  then have "digit k \<in> set (map digit [0..<10])"
    by simp
  then show ?thesis
    by (simp only: digits_string)
qed

lemma utoa_digits: "c \<in> set (utoa n) \<Longrightarrow> c \<in> set ''0123456789''"
proof (induction n rule: utoa.induct)
  case (1 n)
  show ?case
  proof (cases "n < 10")
    case True
    with 1(2) have "c = digit n"
      by (simp add: utoa.simps [of n])
    with True show ?thesis
      by (simp only: digit_in_digits)
  next
    case False
    with 1(2) have "c \<in> set (utoa (n div 10)) \<or> c = digit (n mod 10)"
      by (auto simp: utoa.simps [of n])
    then show ?thesis
    proof
      assume "c \<in> set (utoa (n div 10))"
      with 1(1) False show ?thesis
        by blast
    next
      assume "c = digit (n mod 10)"
      then show ?thesis
        by (simp only: digit_in_digits [of "n mod 10"] mod_less_divisor [of 10 n, simplified])
    qed
  qed
qed

lemma atou_Itoa: "0 \<le> i \<Longrightarrow> int (atou (Itoa i)) = i"
  by (simp add: Itoa_def atou_utoa)

lemma Itoa_digits: "0 \<le> i \<Longrightarrow> set (Itoa i) \<subseteq> set ''0123456789''"
  using utoa_digits by (auto simp: Itoa_def)

section \<open>Properties of the loops\<close>

lemma isOriginAllowed_loop_mem:
  "isOriginAllowed_loop os origin = (''*'' \<in> set os \<or> origin \<in> set os)"
  by (induction os) auto

lemma isMethodAllowed_loop_mem: "isMethodAllowed_loop ms m = (m \<in> set ms)"
  by (induction ms) auto

lemma found_loop_mem: "found_loop header hs = (header \<in> set hs)"
  by (induction hs) auto

lemma areHeadersAllowed_loop_all:
  "areHeadersAllowed_loop cors hs = (\<forall>h \<in> set hs. h \<in> set (AllowedHeaders (options cors)))"
  by (induction hs) (auto simp: found_loop_mem)

lemma isOriginAllowed_mem:
  "isOriginAllowed E cors origin =
     (''*'' \<in> set (AllowedOrigins (options cors))
      \<or> ToLower E origin \<in> set (AllowedOrigins (options cors)))"
  by (simp add: isOriginAllowed_def isOriginAllowed_loop_mem Let_def)

lemma isMethodAllowed_mem:
  "isMethodAllowed E cors m =
     (AllowedMethods (options cors) \<noteq> []
      \<and> (ToUpper E m = ''OPTIONS'' \<or> ToUpper E m \<in> set (AllowedMethods (options cors))))"
  by (auto simp: isMethodAllowed_def isMethodAllowed_loop_mem Let_def)

lemma areHeadersAllowed_all:
  "areHeadersAllowed cors hs = (\<forall>h \<in> set hs. h \<in> set (AllowedHeaders (options cors)))"
  by (auto simp: areHeadersAllowed_def areHeadersAllowed_loop_all)

text \<open>The examples' policies, as \<^verbatim>\<open>New\<close> builds them.\<close>

lemma New_optionsA:
  "options (New env0 optionsA) =
     \<lparr>AllowedOrigins = [''foo.com''], AllowedMethods = [''GET'', ''POST''],
      AllowedHeaders = [''Origin''], ExposedHeaders = [], AllowCredentials = False,
      MaxAge = 0\<rparr>"
  by code_simp

lemma New_optionsC:
  "options (New env0 optionsC) =
     \<lparr>AllowedOrigins = [''*''], AllowedMethods = [''GET'', ''POST''],
      AllowedHeaders = [''X-Custom'', ''Content-Type'', ''Origin''],
      ExposedHeaders = [''X-Total''], AllowCredentials = True, MaxAge = 600\<rparr>"
  by code_simp

text \<open>The examples' strings and requests, evaluated.\<close>

lemma ex_values:
  "ToUpper env0 ''post'' = ''POST''"
  "ToUpper env0 ''POST'' = ''POST''"
  "ToUpper env0 ''GET'' = ''GET''"
  "ToUpper env0 ''DELETE'' = ''DELETE''"
  "ToLower env0 ''Anything.com'' = ''anything.com''"
  "ToLower env0 ''foo.com'' = ''foo.com''"
  "ToLower env0 ''bar.com'' = ''bar.com''"
  "parseHeaderList env0 ''X-Custom, Content-Type'' = [''X-Custom'', ''Content-Type'']"
  "parseHeaderList env0 '''' = []"
  "Itoa 600 = ''600''"
  by code_simp+

lemma ex_requests:
  "Method preflightE = ''OPTIONS''"
  "Header_Get (Header preflightE) ''Origin'' = ''Anything.com''"
  "Header_Get (Header preflightE) ''Access-Control-Request-Method'' = ''post''"
  "Header_Get (Header preflightE) ''Access-Control-Request-Headers'' = ''X-Custom, Content-Type''"
  "Method preflightA = ''OPTIONS''"
  "Header_Get (Header preflightA) ''Origin'' = ''foo.com''"
  "Header_Get (Header preflightA) ''Access-Control-Request-Method'' = ''POST''"
  "Header_Get (Header preflightA) ''Access-Control-Request-Headers'' = ''''"
  "Method preflightB = ''OPTIONS''"
  "Header_Get (Header preflightB) ''Origin'' = ''bar.com''"
  "Method getC = ''GET''"
  "Header_Get (Header getC) ''Origin'' = ''Anything.com''"
  "Method deleteD = ''DELETE''"
  "Header_Get (Header deleteD) ''Origin'' = ''foo.com''"
  "Method getNoOrigin = ''GET''"
  "Header_Get (Header getNoOrigin) ''Origin'' = ''''"
  by (simp_all add: preflightE_def preflightA_def preflightB_def getC_def deleteD_def
      getNoOrigin_def request_def Header_Get_def)

lemma writer_update_cong:
  "f = g \<Longrightarrow> w\<lparr>WriterHeader := f\<rparr> = w\<lparr>WriterHeader := g\<rparr>"
  by simp


lemma ToUpper_OPTIONS: "ToUpper E ''OPTIONS'' = ''OPTIONS''"
  by (simp add: ToUpper_def isASCII_def upperASCII_def)

lemma ex_preflights:
  "Method preflightStar = ''OPTIONS''"
  "Header_Get (Header preflightStar) ''Origin'' = ''*''"
  "Header_Get (Header preflightStar) ''Access-Control-Request-Method'' = ''POST''"
  "Header_Get (Header preflightStar) ''Access-Control-Request-Headers'' = ''''"
  "Method preflightDelete = ''OPTIONS''"
  "Header_Get (Header preflightDelete) ''Origin'' = ''foo.com''"
  "Header_Get (Header preflightDelete) ''Access-Control-Request-Method'' = ''DELETE''"
  "Method preflightBare = ''OPTIONS''"
  "Header_Get (Header preflightBare) ''Origin'' = ''foo.com''"
  "Header_Get (Header preflightBare) ''Access-Control-Request-Method'' = ''''"
  "Method preflightOptions = ''OPTIONS''"
  "Header_Get (Header preflightOptions) ''Origin'' = ''foo.com''"
  "Header_Get (Header preflightOptions) ''Access-Control-Request-Method'' = ''options''"
  "Header_Get (Header preflightOptions) ''Access-Control-Request-Headers'' = ''''"
  by (simp_all add: preflightStar_def preflightDelete_def preflightBare_def
      preflightOptions_def request_def Header_Get_def)

lemma ex_more_values:
  "ToLower env0 ''*'' = ''*''"
  "ToUpper env0 '''' = ''''"
  by code_simp+

text \<open>The paths that write nothing.\<close>

lemma handlePreflight_rejected:
  "Method r \<noteq> ''OPTIONS'' \<or> Header_Get (Header r) ''Origin'' = ''''
   \<or> \<not> isOriginAllowed E cors (Header_Get (Header r) ''Origin'')
   \<or> \<not> isMethodAllowed E cors (Header_Get (Header r) ''Access-Control-Request-Method'')
   \<or> \<not> areHeadersAllowed cors
        (parseHeaderList E (Header_Get (Header r) ''Access-Control-Request-Headers''))
   \<Longrightarrow> handlePreflight E cors w r = w"
  by (auto simp: handlePreflight_def Let_def)

lemma handleActualRequest_rejected:
  "Method r = ''OPTIONS'' \<or> Header_Get (Header r) ''Origin'' = ''''
   \<or> \<not> isOriginAllowed E cors (Header_Get (Header r) ''Origin'')
   \<or> \<not> isMethodAllowed E cors (Method r)
   \<Longrightarrow> handleActualRequest E cors w r = w"
  by (auto simp: handleActualRequest_def Let_def)

text \<open>Two runs of the examples.\<close>

lemma run_preflightA:
  "handlePreflight env0 (New env0 optionsA) w0 preflightA =
     w0\<lparr>WriterHeader := [''Access-Control-Allow-Origin'' \<mapsto> [''foo.com''],
                          ''Access-Control-Allow-Methods'' \<mapsto> [''POST'']]\<rparr>"
  by (simp add: handlePreflight_def Let_def ex_requests ex_values isOriginAllowed_mem
      isMethodAllowed_mem areHeadersAllowed_all New_optionsA Header_Set_def w0_def)

lemma run_getC:
  "handleActualRequest env0 (New env0 optionsC) w0 getC =
     w0\<lparr>WriterHeader := [''Access-Control-Allow-Origin'' \<mapsto> [''Anything.com''],
                          ''Access-Control-Expose-Headers'' \<mapsto> [''X-Total''],
                          ''Access-Control-Allow-Credentials'' \<mapsto> [''true'']]\<rparr>"
  by (simp add: handleActualRequest_def Let_def ex_requests ex_values isOriginAllowed_mem
      isMethodAllowed_mem New_optionsC Header_Set_def w0_def)

text \<open>
  What a path writes does not depend on the headers already in the writer: the result is
  the incoming header map overridden by what the path writes into an empty one.
\<close>

lemma Header_Set_map_add: "m ++ Header_Set d k v = Header_Set (m ++ d) k v"
  by (simp add: Header_Set_def)

lemma map_add_if: "m ++ (if c then a else b) = (if c then m ++ a else m ++ b)"
  by simp

lemma handlePreflight_frame:
  "handlePreflight E cors w r =
     w\<lparr>WriterHeader := WriterHeader w
          ++ WriterHeader (handlePreflight E cors (w\<lparr>WriterHeader := Map.empty\<rparr>) r)\<rparr>"
  unfolding handlePreflight_def Let_def
  by (simp add: Header_Set_map_add map_add_if)

lemma handleActualRequest_frame:
  "handleActualRequest E cors w r =
     w\<lparr>WriterHeader := WriterHeader w
          ++ WriterHeader (handleActualRequest E cors (w\<lparr>WriterHeader := Map.empty\<rparr>) r)\<rparr>"
  unfolding handleActualRequest_def Let_def
  by (simp add: Header_Set_map_add map_add_if)

lemma handlePreflight_sets_origin:
  assumes "Method r = ''OPTIONS''" and "Header_Get (Header r) ''Origin'' \<noteq> ''''"
    and "isOriginAllowed E cors (Header_Get (Header r) ''Origin'')"
    and "isMethodAllowed E cors (Header_Get (Header r) ''Access-Control-Request-Method'')"
    and "areHeadersAllowed cors
          (parseHeaderList E (Header_Get (Header r) ''Access-Control-Request-Headers''))"
  shows "WriterHeader (handlePreflight E cors w r) ''Access-Control-Allow-Origin''
           = Some [Header_Get (Header r) ''Origin'']"
  using assms by (simp add: handlePreflight_def Let_def Header_Set_def)


lemma handleActualRequest_sets_origin:
  assumes "Method r \<noteq> ''OPTIONS''" and "Header_Get (Header r) ''Origin'' \<noteq> ''''"
    and "isOriginAllowed E cors (Header_Get (Header r) ''Origin'')"
    and "isMethodAllowed E cors (Method r)"
  shows "WriterHeader (handleActualRequest E cors w r) ''Access-Control-Allow-Origin''
           = Some [Header_Get (Header r) ''Origin'']"
  using assms by (simp add: handleActualRequest_def Let_def Header_Set_def)

lemma handlePreflight_written:
  assumes "WriterHeader (handlePreflight E cors (w\<lparr>WriterHeader := Map.empty\<rparr>) r) k \<noteq> None"
  shows "WriterHeader (handlePreflight E cors (w\<lparr>WriterHeader := Map.empty\<rparr>) r)
           ''Access-Control-Allow-Origin'' = Some [Header_Get (Header r) ''Origin'']
         \<and> Header_Get (Header r) ''Origin'' \<noteq> ''''
         \<and> isOriginAllowed E cors (Header_Get (Header r) ''Origin'')"
proof (rule ccontr)
  assume n: "\<not> ?thesis"
  have "handlePreflight E cors (w\<lparr>WriterHeader := Map.empty\<rparr>) r = w\<lparr>WriterHeader := Map.empty\<rparr>"
    by (rule handlePreflight_rejected) (use n handlePreflight_sets_origin in blast)
  with assms show False
    by simp
qed

lemma handleActualRequest_written:
  assumes "WriterHeader (handleActualRequest E cors (w\<lparr>WriterHeader := Map.empty\<rparr>) r) k \<noteq> None"
  shows "WriterHeader (handleActualRequest E cors (w\<lparr>WriterHeader := Map.empty\<rparr>) r)
           ''Access-Control-Allow-Origin'' = Some [Header_Get (Header r) ''Origin'']
         \<and> Header_Get (Header r) ''Origin'' \<noteq> ''''
         \<and> isOriginAllowed E cors (Header_Get (Header r) ''Origin'')"
proof (rule ccontr)
  assume n: "\<not> ?thesis"
  have "handleActualRequest E cors (w\<lparr>WriterHeader := Map.empty\<rparr>) r
          = w\<lparr>WriterHeader := Map.empty\<rparr>"
    by (rule handleActualRequest_rejected) (use n handleActualRequest_sets_origin in blast)
  with assms show False
    by simp
qed

section \<open>The origin matcher\<close>

text \<open>
  Claim C3. On the preflight path and on the actual-request path alike, the origin check
  lets a request through exactly when its \<^verbatim>\<open>Origin\<close> header is not empty and the policy's
  list of allowed origins holds \<^verbatim>\<open>*\<close> or holds the lowercased \<^verbatim>\<open>Origin\<close> value; a request
  whose \<^verbatim>\<open>Origin\<close> is empty or missing is treated as one whose origin is not allowed:
  both paths return the writer untouched. A request that is let through and passes the
  other checks of its path gets \<^verbatim>\<open>Access-Control-Allow-Origin\<close> set to its \<^verbatim>\<open>Origin\<close>.
\<close>

theorem origin_check:
  assumes "origin = Header_Get (Header r) ''Origin''"
  shows "(\<not> (origin = '''' \<or> \<not> isOriginAllowed E cors origin) \<longleftrightarrow>
           origin \<noteq> ''''
           \<and> (''*'' \<in> set (AllowedOrigins (options cors))
              \<or> ToLower E origin \<in> set (AllowedOrigins (options cors))))
       \<and> (origin = '''' \<or> \<not> isOriginAllowed E cors origin \<longrightarrow>
            handlePreflight E cors w r = w \<and> handleActualRequest E cors w r = w)
       \<and> (origin \<noteq> '''' \<and> isOriginAllowed E cors origin \<and> Method r = ''OPTIONS''
            \<and> isMethodAllowed E cors (Header_Get (Header r) ''Access-Control-Request-Method'')
            \<and> areHeadersAllowed cors
                 (parseHeaderList E (Header_Get (Header r) ''Access-Control-Request-Headers''))
            \<longrightarrow> WriterHeader (handlePreflight E cors w r) ''Access-Control-Allow-Origin''
                  = Some [origin])
       \<and> (origin \<noteq> '''' \<and> isOriginAllowed E cors origin \<and> Method r \<noteq> ''OPTIONS''
            \<and> isMethodAllowed E cors (Method r)
            \<longrightarrow> WriterHeader (handleActualRequest E cors w r) ''Access-Control-Allow-Origin''
                  = Some [origin])"
proof -
  have "(\<not> (origin = '''' \<or> \<not> isOriginAllowed E cors origin)) =
          (origin \<noteq> ''''
           \<and> (''*'' \<in> set (AllowedOrigins (options cors))
              \<or> ToLower E origin \<in> set (AllowedOrigins (options cors))))"
    by (simp add: isOriginAllowed_mem)
  moreover have "handlePreflight E cors w r = w \<and> handleActualRequest E cors w r = w"
    if "origin = '''' \<or> \<not> isOriginAllowed E cors origin"
    using that assms by (auto simp: handlePreflight_rejected handleActualRequest_rejected)
  moreover have "WriterHeader (handlePreflight E cors w r) ''Access-Control-Allow-Origin''
      = Some [origin]"
    if "origin \<noteq> ''''" "isOriginAllowed E cors origin" "Method r = ''OPTIONS''"
      "isMethodAllowed E cors (Header_Get (Header r) ''Access-Control-Request-Method'')"
      "areHeadersAllowed cors
         (parseHeaderList E (Header_Get (Header r) ''Access-Control-Request-Headers''))"
    using that assms handlePreflight_sets_origin [of r E cors w] by simp
  moreover have "WriterHeader (handleActualRequest E cors w r) ''Access-Control-Allow-Origin''
      = Some [origin]"
    if "origin \<noteq> ''''" "isOriginAllowed E cors origin" "Method r \<noteq> ''OPTIONS''"
      "isMethodAllowed E cors (Method r)"
    using that assms handleActualRequest_sets_origin [of r E cors w] by simp
  ultimately show ?thesis
    by blast
qed

theorem origin_check_witness:
  "isOriginAllowed env0 (New env0 optionsC) ''Anything.com''
   \<and> isOriginAllowed env0 (New env0 optionsA) ''foo.com''
   \<and> \<not> isOriginAllowed env0 (New env0 optionsA) ''bar.com''
   \<and> handlePreflight env0 (New env0 optionsA) w0 preflightB = w0
   \<and> handleActualRequest env0 (New env0 optionsC) w0 getNoOrigin = w0
   \<and> WriterHeader (handleActualRequest env0 (New env0 optionsC) w0 getC)
        ''Access-Control-Allow-Origin'' = Some [''Anything.com'']"
  using origin_check [of "''Anything.com''" getC env0 "New env0 optionsC" w0]
    origin_check [of "''foo.com''" preflightA env0 "New env0 optionsA" w0]
    origin_check [of "''bar.com''" preflightB env0 "New env0 optionsA" w0]
    origin_check [of "''''" getNoOrigin env0 "New env0 optionsC" w0]
  by (simp add: ex_requests ex_values isMethodAllowed_mem New_optionsA New_optionsC)

section \<open>The method matcher\<close>

text \<open>
  Claim C2. For every method string, \<^verbatim>\<open>isMethodAllowed\<close> answers true exactly when the
  policy's list of allowed methods is not empty and the uppercased method is
  \<^verbatim>\<open>OPTIONS\<close> (whatever the list holds) or is equal to an entry of the list; when the
  list is empty the answer is false for every method, \<^verbatim>\<open>OPTIONS\<close> included.
\<close>

theorem isMethodAllowed_iff:
  "(isMethodAllowed E cors m \<longleftrightarrow>
      AllowedMethods (options cors) \<noteq> []
      \<and> (ToUpper E m = ''OPTIONS'' \<or> ToUpper E m \<in> set (AllowedMethods (options cors))))
   \<and> (AllowedMethods (options cors) = [] \<longrightarrow> \<not> isMethodAllowed E cors m)"
proof (cases "AllowedMethods (options cors)")
  case Nil
  then show ?thesis
    by (simp add: isMethodAllowed_def)
next
  case (Cons a ms)
  then show ?thesis
    by (simp add: isMethodAllowed_def isMethodAllowed_loop_mem Let_def)
qed

theorem isMethodAllowed_iff_witness:
  "isMethodAllowed env0 (New env0 optionsA) ''post''
   \<and> isMethodAllowed env0 (New env0 optionsA) ''OPTIONS''
   \<and> \<not> isMethodAllowed env0 (New env0 optionsA) ''DELETE''
   \<and> \<not> isMethodAllowed env0 lockdown ''OPTIONS''"
proof -
  have u: "ToUpper env0 ''post'' = ''POST''" "ToUpper env0 ''OPTIONS'' = ''OPTIONS''"
    "ToUpper env0 ''DELETE'' = ''DELETE''"
    by code_simp+
  show ?thesis
    using isMethodAllowed_iff [of env0 "New env0 optionsA" "''post''"]
      isMethodAllowed_iff [of env0 "New env0 optionsA" "''OPTIONS''"]
      isMethodAllowed_iff [of env0 "New env0 optionsA" "''DELETE''"]
      isMethodAllowed_iff [of env0 lockdown "''OPTIONS''"]
    by (simp add: New_optionsA u lockdown_def)
qed

section \<open>The header matcher\<close>

text \<open>
  Claim C4. For every sequence of requested header tokens, \<^verbatim>\<open>areHeadersAllowed\<close> answers
  true exactly when the sequence is empty or every token of it is equal, as a string, to
  an entry of the policy's list of allowed headers; one token that is not in the list
  makes the answer false.
\<close>

theorem areHeadersAllowed_iff:
  "(areHeadersAllowed cors hs \<longleftrightarrow>
      hs = [] \<or> (\<forall>h \<in> set hs. \<exists>a \<in> set (AllowedHeaders (options cors)). h = a))
   \<and> (\<forall>h \<in> set hs. h \<notin> set (AllowedHeaders (options cors)) \<longrightarrow> \<not> areHeadersAllowed cors hs)"
  by (auto simp: areHeadersAllowed_all)

theorem areHeadersAllowed_iff_witness:
  "areHeadersAllowed (New env0 optionsC) []
   \<and> areHeadersAllowed (New env0 optionsC) [''X-Custom'', ''Content-Type'']
   \<and> \<not> areHeadersAllowed (New env0 optionsC) [''X-Custom'', ''x-custom'']
   \<and> \<not> areHeadersAllowed (New env0 optionsC) [''X-Custom'', '''']"
  using areHeadersAllowed_iff [of "New env0 optionsC" "[]"]
    areHeadersAllowed_iff [of "New env0 optionsC" "[''X-Custom'', ''Content-Type'']"]
    areHeadersAllowed_iff [of "New env0 optionsC" "[''X-Custom'', ''x-custom'']"]
    areHeadersAllowed_iff [of "New env0 optionsC" "[''X-Custom'', '''']"]
  by (simp add: New_optionsC)

section \<open>The preflight response\<close>

text \<open>
  Claim C1, amended. As written, the claim says that \<^verbatim>\<open>Access-Control-Allow-Origin\<close> is
  never the literal \<^verbatim>\<open>*\<close>. That fails: the header echoes the request's \<^verbatim>\<open>Origin\<close>, and a
  request may send \<^verbatim>\<open>*\<close> as its \<^verbatim>\<open>Origin\<close> (the counterexample below).
  What holds: for every policy and every preflight request that passes the origin, method
  and header checks, \<^verbatim>\<open>handlePreflight\<close> leaves the writer with exactly these headers
  set and every other header as it was: \<^verbatim>\<open>Access-Control-Allow-Origin\<close> is the request's
  \<^verbatim>\<open>Origin\<close> value as it was sent (the policy's \<^verbatim>\<open>*\<close> is never put in its place: the
  value is \<^verbatim>\<open>*\<close> exactly when the request's own \<^verbatim>\<open>Origin\<close> is \<^verbatim>\<open>*\<close>);
  \<^verbatim>\<open>Access-Control-Allow-Methods\<close> is the uppercased \<^verbatim>\<open>Access-Control-Request-Method\<close>;
  \<^verbatim>\<open>Access-Control-Allow-Headers\<close> is the parsed tokens joined with a comma and a space,
  set only when there is a token; \<^verbatim>\<open>Access-Control-Allow-Credentials\<close> is \<^verbatim>\<open>true\<close>, set
  only when the policy allows credentials; \<^verbatim>\<open>Access-Control-Max-Age\<close> is the decimal
  string of the policy's age, set only when the age is above 0.
\<close>

theorem handlePreflight_emits:
  assumes "Method r = ''OPTIONS''"
    and "origin = Header_Get (Header r) ''Origin''"
    and "reqMethod = Header_Get (Header r) ''Access-Control-Request-Method''"
    and "reqHeaders = parseHeaderList E (Header_Get (Header r) ''Access-Control-Request-Headers'')"
    and "origin \<noteq> ''''" and "isOriginAllowed E cors origin"
    and "isMethodAllowed E cors reqMethod"
    and "areHeadersAllowed cors reqHeaders"
  shows "handlePreflight E cors w r = w\<lparr>WriterHeader := (\<lambda>k.
      if k = ''Access-Control-Allow-Origin'' then Some [origin]
      else if k = ''Access-Control-Allow-Methods'' then Some [ToUpper E reqMethod]
      else if k = ''Access-Control-Allow-Headers'' \<and> reqHeaders \<noteq> []
        then Some [Join reqHeaders '', '']
      else if k = ''Access-Control-Allow-Credentials'' \<and> AllowCredentials (options cors)
        then Some [''true'']
      else if k = ''Access-Control-Max-Age'' \<and> MaxAge (options cors) > 0
        then Some [Itoa (MaxAge (options cors))]
      else WriterHeader w k)\<rparr>
    \<and> (WriterHeader (handlePreflight E cors w r) ''Access-Control-Allow-Origin''
          = Some [''*''] \<longleftrightarrow> origin = ''*'')"
    (is "?emits \<and> ?star")
proof
  show emits: ?emits
    unfolding handlePreflight_def Let_def using assms
    by (auto simp: Header_Set_def fun_eq_iff intro!: writer_update_cong)
  have "WriterHeader (handlePreflight E cors w r) ''Access-Control-Allow-Origin''
      = Some [origin]"
    by (subst emits) simp
  then show ?star
    by simp
qed

theorem handlePreflight_emits_witness:
  "map (WriterHeader (handlePreflight env0 (New env0 optionsC) w0 preflightE))
     [''Access-Control-Allow-Origin'', ''Access-Control-Allow-Methods'',
      ''Access-Control-Allow-Headers'', ''Access-Control-Allow-Credentials'',
      ''Access-Control-Max-Age'', ''Access-Control-Expose-Headers'']
   = [Some [''Anything.com''], Some [''POST''], Some [''X-Custom, Content-Type''],
      Some [''true''], Some [''600''], None]
   \<and> map (WriterHeader (handlePreflight env0 (New env0 optionsA) w0 preflightA))
     [''Access-Control-Allow-Origin'', ''Access-Control-Allow-Methods'',
      ''Access-Control-Allow-Headers'', ''Access-Control-Allow-Credentials'',
      ''Access-Control-Max-Age'', ''Access-Control-Expose-Headers'']
   = [Some [''foo.com''], Some [''POST''], None, None, None, None]"
proof -
  have e: "handlePreflight env0 (New env0 optionsC) w0 preflightE = w0\<lparr>WriterHeader := (\<lambda>k.
      if k = ''Access-Control-Allow-Origin'' then Some [''Anything.com'']
      else if k = ''Access-Control-Allow-Methods'' then Some [ToUpper env0 ''post'']
      else if k = ''Access-Control-Allow-Headers'' \<and> [''X-Custom'', ''Content-Type''] \<noteq> []
        then Some [Join [''X-Custom'', ''Content-Type''] '', '']
      else if k = ''Access-Control-Allow-Credentials''
                \<and> AllowCredentials (options (New env0 optionsC))
        then Some [''true'']
      else if k = ''Access-Control-Max-Age'' \<and> MaxAge (options (New env0 optionsC)) > 0
        then Some [Itoa (MaxAge (options (New env0 optionsC)))]
      else WriterHeader w0 k)\<rparr>"
    by (rule handlePreflight_emits [THEN conjunct1])
       (simp_all add: ex_requests ex_values isOriginAllowed_mem isMethodAllowed_mem
          areHeadersAllowed_all New_optionsC)
  have a: "handlePreflight env0 (New env0 optionsA) w0 preflightA = w0\<lparr>WriterHeader := (\<lambda>k.
      if k = ''Access-Control-Allow-Origin'' then Some [''foo.com'']
      else if k = ''Access-Control-Allow-Methods'' then Some [ToUpper env0 ''POST'']
      else if k = ''Access-Control-Allow-Headers'' \<and> ([] :: string list) \<noteq> []
        then Some [Join [] '', '']
      else if k = ''Access-Control-Allow-Credentials''
                \<and> AllowCredentials (options (New env0 optionsA))
        then Some [''true'']
      else if k = ''Access-Control-Max-Age'' \<and> MaxAge (options (New env0 optionsA)) > 0
        then Some [Itoa (MaxAge (options (New env0 optionsA)))]
      else WriterHeader w0 k)\<rparr>"
    by (rule handlePreflight_emits [THEN conjunct1])
       (simp_all add: ex_requests ex_values isOriginAllowed_mem isMethodAllowed_mem
          areHeadersAllowed_all New_optionsA)
  show ?thesis
    unfolding e a by (simp add: ex_values New_optionsC New_optionsA w0_def)
qed

text \<open>
  The claim as written, refuted: under a policy that allows every origin and credentials,
  a preflight whose \<^verbatim>\<open>Origin\<close> header is \<^verbatim>\<open>*\<close> passes the three checks, and the literal
  \<^verbatim>\<open>*\<close> is what \<^verbatim>\<open>Access-Control-Allow-Origin\<close> is set to, next to
  \<^verbatim>\<open>Access-Control-Allow-Credentials: true\<close>.
\<close>

theorem handlePreflight_star_counterexample:
  "Method preflightStar = ''OPTIONS''
   \<and> Header_Get (Header preflightStar) ''Origin'' = ''*''
   \<and> isOriginAllowed env0 (New env0 optionsC) (Header_Get (Header preflightStar) ''Origin'')
   \<and> isMethodAllowed env0 (New env0 optionsC)
        (Header_Get (Header preflightStar) ''Access-Control-Request-Method'')
   \<and> areHeadersAllowed (New env0 optionsC)
        (parseHeaderList env0
          (Header_Get (Header preflightStar) ''Access-Control-Request-Headers''))
   \<and> WriterHeader (handlePreflight env0 (New env0 optionsC) w0 preflightStar)
        ''Access-Control-Allow-Origin'' = Some [''*'']
   \<and> WriterHeader (handlePreflight env0 (New env0 optionsC) w0 preflightStar)
        ''Access-Control-Allow-Credentials'' = Some [''true'']"
  by (simp add: handlePreflight_def Let_def ex_preflights ex_values ex_more_values
      isOriginAllowed_mem isMethodAllowed_mem areHeadersAllowed_all New_optionsC
      Header_Set_def)

section \<open>The response to an actual request\<close>

text \<open>
  Claim C6. For every request that is not a preflight, \<^verbatim>\<open>handleActualRequest\<close> returns
  the writer untouched when the \<^verbatim>\<open>Origin\<close> header is empty, the origin matcher fails or
  the method matcher fails on the request's method; otherwise it leaves the writer with
  exactly these headers set and every other header as it was:
  \<^verbatim>\<open>Access-Control-Allow-Origin\<close> is the request's \<^verbatim>\<open>Origin\<close> value,
  \<^verbatim>\<open>Access-Control-Expose-Headers\<close> is the policy's exposed headers joined with a comma
  and a space, set only when the list is not empty, and
  \<^verbatim>\<open>Access-Control-Allow-Credentials\<close> is \<^verbatim>\<open>true\<close>, set only when the policy allows
  credentials.
\<close>

theorem handleActualRequest_emits:
  assumes "Method r \<noteq> ''OPTIONS''"
    and "origin = Header_Get (Header r) ''Origin''"
  shows "handleActualRequest E cors w r =
    (if origin = '''' \<or> \<not> isOriginAllowed E cors origin \<or> \<not> isMethodAllowed E cors (Method r)
     then w
     else w\<lparr>WriterHeader := (\<lambda>k.
       if k = ''Access-Control-Allow-Origin'' then Some [origin]
       else if k = ''Access-Control-Expose-Headers'' \<and> ExposedHeaders (options cors) \<noteq> []
         then Some [Join (ExposedHeaders (options cors)) '', '']
       else if k = ''Access-Control-Allow-Credentials'' \<and> AllowCredentials (options cors)
         then Some [''true'']
       else WriterHeader w k)\<rparr>)"
  unfolding handleActualRequest_def Let_def using assms
  by (auto simp: Header_Set_def fun_eq_iff intro!: writer_update_cong)

theorem handleActualRequest_emits_witness:
  "map (WriterHeader (handleActualRequest env0 (New env0 optionsC) w0 getC))
     [''Access-Control-Allow-Origin'', ''Access-Control-Expose-Headers'',
      ''Access-Control-Allow-Credentials'', ''Access-Control-Allow-Methods'']
   = [Some [''Anything.com''], Some [''X-Total''], Some [''true''], None]
   \<and> handleActualRequest env0 (New env0 optionsA) w0 deleteD = w0
   \<and> handleActualRequest env0 (New env0 optionsA) w0 getNoOrigin = w0"
  using handleActualRequest_emits [of getC "''Anything.com''" env0 "New env0 optionsC" w0]
    handleActualRequest_emits [of deleteD "''foo.com''" env0 "New env0 optionsA" w0]
    handleActualRequest_emits [of getNoOrigin "''''" env0 "New env0 optionsA" w0]
  by (simp add: ex_requests ex_values isOriginAllowed_mem isMethodAllowed_mem
      New_optionsC New_optionsA) (simp add: w0_def)

section \<open>The handler adapters: preflight requests\<close>

text \<open>
  Claim C5. For every request whose method is \<^verbatim>\<open>OPTIONS\<close>, the adapters return what
  \<^verbatim>\<open>handlePreflight\<close> returns, whatever the wrapped handler is: it is not called,
  whether the checks pass or fail. When one of the preflight checks fails (empty origin,
  origin matcher, method matcher, header matcher) the writer comes back untouched: no
  header is written.
\<close>

theorem preflight_short_circuit:
  assumes "Method r = ''OPTIONS''"
  shows "Handler E cors h w r = handlePreflight E cors w r
       \<and> ServeHTTP E cors w r h = handlePreflight E cors w r
       \<and> (Header_Get (Header r) ''Origin'' = ''''
          \<or> \<not> isOriginAllowed E cors (Header_Get (Header r) ''Origin'')
          \<or> \<not> isMethodAllowed E cors (Header_Get (Header r) ''Access-Control-Request-Method'')
          \<or> \<not> areHeadersAllowed cors
               (parseHeaderList E (Header_Get (Header r) ''Access-Control-Request-Headers''))
          \<longrightarrow> Handler E cors h w r = w \<and> ServeHTTP E cors w r h = w)"
  using assms handlePreflight_rejected [of r E cors w]
  by (auto simp: Handler_def ServeHTTP_def)

theorem preflight_short_circuit_witness:
  "calls (Handler env0 (New env0 optionsA) countingHandler w0 preflightA) = 0
   \<and> WriterHeader (Handler env0 (New env0 optionsA) countingHandler w0 preflightA)
       ''Access-Control-Allow-Origin'' = Some [''foo.com'']
   \<and> Handler env0 (New env0 optionsA) countingHandler w0 preflightB = w0
   \<and> ServeHTTP env0 (New env0 optionsA) w0 preflightB countingHandler = w0"
proof -
  have a: "Handler env0 (New env0 optionsA) countingHandler w0 preflightA
             = handlePreflight env0 (New env0 optionsA) w0 preflightA"
    using preflight_short_circuit [of preflightA env0 "New env0 optionsA" countingHandler w0]
    by (simp add: ex_requests)
  have nb: "\<not> isOriginAllowed env0 (New env0 optionsA) (Header_Get (Header preflightB) ''Origin'')"
    by (simp add: ex_requests ex_values isOriginAllowed_mem New_optionsA)
  have mb: "Method preflightB = ''OPTIONS''"
    by (simp add: ex_requests)
  have b: "Handler env0 (New env0 optionsA) countingHandler w0 preflightB = w0
           \<and> ServeHTTP env0 (New env0 optionsA) w0 preflightB countingHandler = w0"
    using preflight_short_circuit [OF mb, of env0 "New env0 optionsA" countingHandler w0] nb
    by blast
  show ?thesis
    unfolding a run_preflightA using b by (simp add: w0_def)
qed

section \<open>The handler adapters: actual requests\<close>

text \<open>
  Claim C7. For every request whose method is not \<^verbatim>\<open>OPTIONS\<close>, the adapters call the
  wrapped handler, once, on the writer that \<^verbatim>\<open>handleActualRequest\<close> has left, whether the
  checks passed or failed; when a check failed the wrapped handler gets the writer as it
  came in.
\<close>

theorem actual_request_continues:
  assumes "Method r \<noteq> ''OPTIONS''"
  shows "Handler E cors h w r = h (handleActualRequest E cors w r) r
       \<and> ServeHTTP E cors w r h = h (handleActualRequest E cors w r) r
       \<and> (Header_Get (Header r) ''Origin'' = ''''
          \<or> \<not> isOriginAllowed E cors (Header_Get (Header r) ''Origin'')
          \<or> \<not> isMethodAllowed E cors (Method r)
          \<longrightarrow> Handler E cors h w r = h w r \<and> ServeHTTP E cors w r h = h w r)"
  using assms handleActualRequest_rejected [of r E cors w]
  by (auto simp: Handler_def ServeHTTP_def)

theorem actual_request_continues_witness:
  "calls (Handler env0 (New env0 optionsA) countingHandler w0 deleteD) = 1
   \<and> WriterHeader (Handler env0 (New env0 optionsA) countingHandler w0 deleteD)
       ''Access-Control-Allow-Origin'' = None
   \<and> calls (ServeHTTP env0 (New env0 optionsC) w0 getC countingHandler) = 1
   \<and> WriterHeader (ServeHTTP env0 (New env0 optionsC) w0 getC countingHandler)
       ''Access-Control-Allow-Origin'' = Some [''Anything.com'']"
proof -
  have md: "Method deleteD \<noteq> ''OPTIONS''" and mc: "Method getC \<noteq> ''OPTIONS''"
    by (simp_all add: ex_requests)
  have nd: "\<not> isMethodAllowed env0 (New env0 optionsA) (Method deleteD)"
    by (simp add: ex_requests ex_values isMethodAllowed_mem New_optionsA)
  have d: "Handler env0 (New env0 optionsA) countingHandler w0 deleteD
             = countingHandler w0 deleteD"
    using actual_request_continues [OF md, of env0 "New env0 optionsA" countingHandler w0] nd
    by blast
  have c: "ServeHTTP env0 (New env0 optionsC) w0 getC countingHandler
             = countingHandler (handleActualRequest env0 (New env0 optionsC) w0 getC) getC"
    using actual_request_continues [OF mc, of env0 "New env0 optionsC" countingHandler w0]
    by blast
  show ?thesis
    unfolding d c run_getC by (simp add: countingHandler_def w0_def)
qed

section \<open>Construction of the policy: what \<^verbatim>\<open>New\<close> builds\<close>

text \<open>
  Claim C8. For every options value, \<^verbatim>\<open>New\<close> lowercases every allowed origin, uppercases
  every allowed method, canonicalizes the allowed and the exposed header names, appends
  \<^verbatim>\<open>Origin\<close> to the allowed headers before canonicalizing them (so the list is never
  empty, and holds \<^verbatim>\<open>Origin\<close> since canonicalization leaves that name alone), copies the
  flag and the age, and replaces an empty list of origins by \<^verbatim>\<open>*\<close> and an empty list of
  methods by \<^verbatim>\<open>GET\<close>, \<^verbatim>\<open>POST\<close>. \<^verbatim>\<open>New\<close> is a function of the options with no error
  result: construction is deterministic and cannot fail.
\<close>

theorem New_normalizes:
  "AllowedOrigins (options (New E opts)) =
     (if AllowedOrigins opts = [] then [''*''] else map (ToLower E) (AllowedOrigins opts))
   \<and> AllowedMethods (options (New E opts)) =
     (if AllowedMethods opts = [] then [''GET'', ''POST'']
      else map (ToUpper E) (AllowedMethods opts))
   \<and> AllowedHeaders (options (New E opts)) =
     map (toHeader E) (AllowedHeaders opts) @ [toHeader E ''Origin'']
   \<and> ExposedHeaders (options (New E opts)) = map (toHeader E) (ExposedHeaders opts)
   \<and> AllowCredentials (options (New E opts)) = AllowCredentials opts
   \<and> MaxAge (options (New E opts)) = MaxAge opts
   \<and> (toHeader E ''Origin'' = ''Origin'' \<longrightarrow>
        ''Origin'' \<in> set (AllowedHeaders (options (New E opts))))"
  by (simp add: New_def convert_def Let_def)

theorem New_normalizes_witness:
  "options (New env0
      \<lparr>AllowedOrigins = [''HTTP://Foo.com''], AllowedMethods = [''get'', ''Delete''],
       AllowedHeaders = [''x-custom''], ExposedHeaders = [''x-total''],
       AllowCredentials = True, MaxAge = 600\<rparr>) =
     \<lparr>AllowedOrigins = [''http://foo.com''], AllowedMethods = [''GET'', ''DELETE''],
      AllowedHeaders = [''X-Custom'', ''Origin''], ExposedHeaders = [''X-Total''],
      AllowCredentials = True, MaxAge = 600\<rparr>
   \<and> options (Default env0) =
     \<lparr>AllowedOrigins = [''*''], AllowedMethods = [''GET'', ''POST''],
      AllowedHeaders = [''Origin''], ExposedHeaders = [],
      AllowCredentials = False, MaxAge = 0\<rparr>"
proof -
  have v: "ToLower env0 ''HTTP://Foo.com'' = ''http://foo.com''"
    "ToUpper env0 ''get'' = ''GET''" "ToUpper env0 ''Delete'' = ''DELETE''"
    "toHeader env0 ''x-custom'' = ''X-Custom''" "toHeader env0 ''x-total'' = ''X-Total''"
    "toHeader env0 ''Origin'' = ''Origin''"
    by code_simp+
  show ?thesis
    using New_normalizes [of env0 "\<lparr>AllowedOrigins = [''HTTP://Foo.com''],
        AllowedMethods = [''get'', ''Delete''],
        AllowedHeaders = [''x-custom''], ExposedHeaders = [''x-total''],
        AllowCredentials = True, MaxAge = 600\<rparr>"]
      New_normalizes [of env0 "\<lparr>AllowedOrigins = [], AllowedMethods = [], AllowedHeaders = [],
        ExposedHeaders = [], AllowCredentials = False, MaxAge = 0\<rparr>"]
    by (simp add: v Default_def Options.equality)
qed

section \<open>Classification by the method\<close>




section \<open>All or nothing\<close>

text \<open>
  Claim C10. For every request and every policy, let \<open>d\<close> be the headers the component
  writes (what it leaves in a writer that came in with no header). The writer comes back
  with its headers overridden by \<open>d\<close> and nothing else changed; if \<open>d\<close> holds any header
  at all, it holds \<^verbatim>\<open>Access-Control-Allow-Origin\<close> with the request's \<^verbatim>\<open>Origin\<close> value,
  and that value is not empty and passes the origin matcher; and if any header of the writer has changed, \<^verbatim>\<open>Access-Control-Allow-Origin\<close> is set to the
  request's \<^verbatim>\<open>Origin\<close> value in the result.
\<close>

theorem cors_headers_gated:
  assumes "d = WriterHeader (HandlerFunc E cors (w\<lparr>WriterHeader := Map.empty\<rparr>) r)"
    and "origin = Header_Get (Header r) ''Origin''"
  shows "HandlerFunc E cors w r = w\<lparr>WriterHeader := WriterHeader w ++ d\<rparr>
       \<and> (\<forall>k. d k \<noteq> None \<longrightarrow>
             d ''Access-Control-Allow-Origin'' = Some [origin]
             \<and> origin \<noteq> '''' \<and> isOriginAllowed E cors origin)
       \<and> (\<forall>k. WriterHeader (HandlerFunc E cors w r) k \<noteq> WriterHeader w k \<longrightarrow>
             WriterHeader (HandlerFunc E cors w r) ''Access-Control-Allow-Origin''
               = Some [origin])"
proof -
  have frame: "HandlerFunc E cors w r = w\<lparr>WriterHeader := WriterHeader w ++ d\<rparr>"
    using assms handlePreflight_frame [of E cors w r] handleActualRequest_frame [of E cors w r]
    by (simp add: HandlerFunc_def)
  have gate: "d ''Access-Control-Allow-Origin'' = Some [origin]
      \<and> origin \<noteq> '''' \<and> isOriginAllowed E cors origin"
    if "d k \<noteq> None" for k
    using that assms handlePreflight_written [of E cors w r k]
      handleActualRequest_written [of E cors w r k]
    by (simp add: HandlerFunc_def split: if_splits)
  have changed: "WriterHeader (HandlerFunc E cors w r) ''Access-Control-Allow-Origin''
      = Some [origin]"
    if "WriterHeader (HandlerFunc E cors w r) k \<noteq> WriterHeader w k" for k
  proof -
    from that frame have "d k \<noteq> None"
      by (auto simp: map_add_def split: option.splits)
    then have "d ''Access-Control-Allow-Origin'' = Some [origin]"
      using gate by blast
    with frame show ?thesis
      by (simp add: map_add_def)
  qed
  from frame gate changed show ?thesis
    by blast
qed

theorem cors_headers_gated_witness:
  "WriterHeader (HandlerFunc env0 (New env0 optionsC) w0 getC)
     ''Access-Control-Allow-Credentials'' = Some [''true'']
   \<and> WriterHeader (HandlerFunc env0 (New env0 optionsC) w0 getC)
     ''Access-Control-Allow-Origin'' = Some [''Anything.com'']
   \<and> HandlerFunc env0 (New env0 optionsA) w0 deleteD = w0"
proof -
  have run: "HandlerFunc env0 (New env0 optionsC) w0 getC
      = handleActualRequest env0 (New env0 optionsC) w0 getC"
    by (simp add: HandlerFunc_def ex_requests)
  have c: "WriterHeader (HandlerFunc env0 (New env0 optionsC) w0 getC)
     ''Access-Control-Allow-Credentials'' = Some [''true'']"
    unfolding run run_getC by simp
  then have "WriterHeader (HandlerFunc env0 (New env0 optionsC) w0 getC)
      ''Access-Control-Allow-Credentials'' \<noteq> WriterHeader w0 ''Access-Control-Allow-Credentials''"
    by (simp add: w0_def)
  then have o: "WriterHeader (HandlerFunc env0 (New env0 optionsC) w0 getC)
      ''Access-Control-Allow-Origin'' = Some [Header_Get (Header getC) ''Origin'']"
    using cors_headers_gated [OF refl refl, of env0 "New env0 optionsC" w0 getC] by blast
  have "WriterHeader (HandlerFunc env0 (New env0 optionsA) (w0\<lparr>WriterHeader := Map.empty\<rparr>) deleteD)
      = Map.empty"
    by (simp add: HandlerFunc_def handleActualRequest_def Let_def ex_requests ex_values
        isMethodAllowed_mem New_optionsA)
  then have d: "HandlerFunc env0 (New env0 optionsA) w0 deleteD = w0"
    using cors_headers_gated [OF refl refl, of env0 "New env0 optionsA" w0 deleteD] by simp
  show ?thesis
    using c o d by (simp add: ex_requests)
qed

end
